theory Spec2Isabelle
  imports Complex_Main
begin

section \<open>JavaScript numbers and the operators the framebuffer applies to them\<close>

text \<open>
  A JavaScript number is an IEEE double: a finite value, one of the two infinities, or
  \<open>NaN\<close>. A finite double is represented by the real number it denotes. \<open>Math.ceil\<close> and
  \<open>===\<close> are exact on doubles, so they are exact here. Negative zero is identified
  with zero (\<open>-0 === 0\<close>, both are falsy, and \<open>Math.ceil\<close> keeps them apart only by the
  sign bit). An argument that may be omitted is a \<open>number option\<close>, with \<open>None\<close> for
  \<open>undefined\<close>.
\<close>

datatype number = Finite real | NaN | PosInfinity | NegInfinity

text \<open>\<open>ToBoolean\<close>: \<open>undefined\<close>, \<open>0\<close> and \<open>NaN\<close> are falsy, every other number is truthy.\<close>

fun truthy :: "number option \<Rightarrow> bool" where
  "truthy None = False"
| "truthy (Some NaN) = False"
| "truthy (Some (Finite q)) = (q \<noteq> 0)"
| "truthy (Some PosInfinity) = True"
| "truthy (Some NegInfinity) = True"

text \<open>\<open>a || b\<close> with a number for \<open>b\<close>: the left operand when it is truthy, else the right.\<close>

definition logical_or :: "number option \<Rightarrow> number \<Rightarrow> number" where
  "logical_or a b = (case a of None \<Rightarrow> b | Some n \<Rightarrow> if truthy (Some n) then n else b)"

text \<open>\<open>ToNumber\<close>, which \<open>Math.ceil\<close> applies to its argument: \<open>undefined\<close> becomes \<open>NaN\<close>.\<close>

fun ToNumber :: "number option \<Rightarrow> number" where
  "ToNumber None = NaN"
| "ToNumber (Some n) = n"

fun Math_ceil :: "number \<Rightarrow> number" where
  "Math_ceil (Finite q) = Finite (of_int \<lceil>q\<rceil>)"
| "Math_ceil NaN = NaN"
| "Math_ceil PosInfinity = PosInfinity"
| "Math_ceil NegInfinity = NegInfinity"

text \<open>\<open>a === b\<close> on numbers: \<open>NaN\<close> is equal to nothing, itself included.\<close>

fun strict_equals :: "number \<Rightarrow> number \<Rightarrow> bool" where
  "strict_equals NaN b = False"
| "strict_equals a NaN = False"
| "strict_equals a b = (a = b)"

text \<open>
  \<open>a / b\<close>. The quotient of two finite numbers is the exact one (the double is its
  rounding); a zero divisor counts as positive zero.
\<close>

fun divide_number :: "number \<Rightarrow> number \<Rightarrow> number" where
  "divide_number NaN b = NaN"
| "divide_number a NaN = NaN"
| "divide_number (Finite a) (Finite b) =
     (if b \<noteq> 0 then Finite (a / b)
      else if a = 0 then NaN
      else if 0 < a then PosInfinity else NegInfinity)"
| "divide_number (Finite a) PosInfinity = Finite 0"
| "divide_number (Finite a) NegInfinity = Finite 0"
| "divide_number PosInfinity (Finite b) = (if 0 \<le> b then PosInfinity else NegInfinity)"
| "divide_number NegInfinity (Finite b) = (if 0 \<le> b then NegInfinity else PosInfinity)"
| "divide_number a b = NaN"

section \<open>The collaborators: textures and the dispose runner\<close>

text \<open>
  Modelled from the spec: the constants of \<open>@pixi/constants\<close> are not part of the
  sources. Each enumeration has the member the framebuffer names (nearest-neighbour
  sampling, the depth pixel format, the unsigned 16-bit component type) and one other.
\<close>

datatype SCALE_MODES = LINEAR | NEAREST

datatype FORMATS = RGBA | DEPTH_COMPONENT

datatype TYPES = UNSIGNED_BYTE | UNSIGNED_SHORT

text \<open>
  Modelled from the spec: \<open>DepthResource\<close> and \<open>BaseTexture\<close> are not part of the sources.
  A \<open>DepthResource\<close> is the value \<open>new DepthResource(null, {width, height})\<close>; a
  \<open>BaseTexture\<close> (the spec's Surface, with \<open>width\<close>, \<open>height\<close> and \<open>resolution\<close>) is the
  value \<open>new BaseTexture(resource, options)\<close>, a field per option, \<open>None\<close> for an
  option that is not passed. The record stands for the reference the framebuffer holds:
  what \<open>setSize\<close> and \<open>destroy\<close> do inside the texture is the collaborator's business
  and appears in the model as a call made on the texture.
\<close>

record DepthResource =
  resource_width :: number
  resource_height :: number

record BaseTexture =
  resource :: "DepthResource option"
  scaleMode :: SCALE_MODES
  resolution :: number
  mipmap :: bool
  texture_width :: number
  texture_height :: number
  format :: "FORMATS option"
  type :: "TYPES option"

text \<open>Modelled from the spec: \<open>new Runner(name, argCount)\<close> of \<open>@pixi/runner\<close>.\<close>

datatype Runner = Runner string nat

section \<open>The framebuffer\<close>

text \<open>
  The fields of \<open>Framebuffer\<close>, as the constructor assigns them. The three counters start
  at 0 and change by \<open>++\<close> only, so they are natural numbers (a double counts exactly
  up to \<open>2^53\<close>; the model does not bound them). \<open>colorTextures\<close> is a
  JavaScript array: an entry is a texture or a hole (\<open>None\<close>, read as \<open>undefined\<close>).
  \<open>depthTexture\<close> is a texture or \<open>null\<close>. \<open>glFramebuffers\<close> is the object the renderers
  key by context; the framebuffer only creates it.
\<close>

record Framebuffer =
  width :: number
  height :: number
  stencil :: bool
  depth :: bool
  dirtyId :: nat
  dirtyFormat :: nat
  dirtySize :: nat
  depthTexture :: "BaseTexture option"
  colorTextures :: "BaseTexture option list"
  glFramebuffers :: "(nat \<times> nat) list"
  disposeRunner :: Runner

text \<open>
  What a method does besides changing the fields: the calls it makes on its
  collaborators, in order, and how it ends (\<open>return this\<close>, a plain return, or a
  \<open>TypeError\<close> from reading a property of \<open>undefined\<close>). The state is the framebuffer as
  the method leaves it, also when it throws.
\<close>

datatype call =
    SetSize BaseTexture number number
  | Destroy BaseTexture
  | Run Runner Framebuffer bool

datatype error = TypeError

datatype retval = This | Undefined

record result =
  state :: Framebuffer
  calls :: "call list"
  returned :: "error + retval"

definition constructor :: "number option \<Rightarrow> number option \<Rightarrow> Framebuffer" where
  "constructor w h =
     \<lparr> width = Math_ceil (logical_or w (Finite 100)),
       height = Math_ceil (logical_or h (Finite 100)),
       stencil = False,
       depth = False,
       dirtyId = 0,
       dirtyFormat = 0,
       dirtySize = 0,
       depthTexture = None,
       colorTextures = [],
       glFramebuffers = [],
       disposeRunner = Runner ''disposeFramebuffer'' 2 \<rparr>"

text \<open>
  \<open>xs[i] = v\<close> on a JavaScript array, for an index that is a natural number: inside the
  array the entry is replaced; at or past the end the array grows to length \<open>i + 1\<close>
  and the entries between are holes.
\<close>

definition array_set :: "'a option list \<Rightarrow> nat \<Rightarrow> 'a \<Rightarrow> 'a option list" where
  "array_set xs i v =
     (if i < length xs then xs[i := Some v]
      else xs @ replicate (i - length xs) None @ [Some v])"

definition addColorTexture :: "nat option \<Rightarrow> BaseTexture option \<Rightarrow> Framebuffer \<Rightarrow> result" where
  "addColorTexture index texture fb =
     (let i = (case index of None \<Rightarrow> 0 | Some i \<Rightarrow> i);
          t = (case texture of
                 Some t \<Rightarrow> t
               | None \<Rightarrow>
                   \<lparr> resource = None,
                     scaleMode = NEAREST,
                     resolution = Finite 1,
                     mipmap = False,
                     texture_width = width fb,
                     texture_height = height fb,
                     format = None,
                     type = None \<rparr>)
      in \<lparr> state = fb \<lparr> colorTextures := array_set (colorTextures fb) i t,
                        dirtyId := dirtyId fb + 1,
                        dirtyFormat := dirtyFormat fb + 1 \<rparr>,
           calls = [],
           returned = Inr This \<rparr>)"

definition addDepthTexture :: "BaseTexture option \<Rightarrow> Framebuffer \<Rightarrow> result" where
  "addDepthTexture texture fb =
     (let t = (case texture of
                 Some t \<Rightarrow> t
               | None \<Rightarrow>
                   \<lparr> resource = Some \<lparr> resource_width = width fb, resource_height = height fb \<rparr>,
                     scaleMode = NEAREST,
                     resolution = Finite 1,
                     mipmap = False,
                     texture_width = width fb,
                     texture_height = height fb,
                     format = Some DEPTH_COMPONENT,
                     type = Some UNSIGNED_SHORT \<rparr>)
      in \<lparr> state = fb \<lparr> depthTexture := Some t,
                        dirtyId := dirtyId fb + 1,
                        dirtyFormat := dirtyFormat fb + 1 \<rparr>,
           calls = [],
           returned = Inr This \<rparr>)"

definition enableDepth :: "Framebuffer \<Rightarrow> result" where
  "enableDepth fb =
     \<lparr> state = fb \<lparr> depth := True,
                     dirtyId := dirtyId fb + 1,
                     dirtyFormat := dirtyFormat fb + 1 \<rparr>,
       calls = [],
       returned = Inr This \<rparr>"

definition enableStencil :: "Framebuffer \<Rightarrow> result" where
  "enableStencil fb =
     \<lparr> state = fb \<lparr> stencil := True,
                     dirtyId := dirtyId fb + 1,
                     dirtyFormat := dirtyFormat fb + 1 \<rparr>,
       calls = [],
       returned = Inr This \<rparr>"

text \<open>
  The \<open>for\<close> loop of \<open>resize\<close> over \<open>colorTextures\<close>, from index 0: at a texture it
  reads \<open>texture.resolution\<close> and calls \<open>texture.setSize\<close>; at a hole \<open>texture\<close> is
  \<open>undefined\<close>, and reading \<open>texture.resolution\<close> throws a \<open>TypeError\<close> that ends the
  loop and the method.
\<close>

fun resize_loop :: "number \<Rightarrow> number \<Rightarrow> BaseTexture option list \<Rightarrow> call list \<times> error option" where
  "resize_loop w h [] = ([], None)"
| "resize_loop w h (None # ts) = ([], Some TypeError)"
| "resize_loop w h (Some t # ts) =
     (case resize_loop w h ts of
        (cs, e) \<Rightarrow>
          (SetSize t (divide_number w (resolution t)) (divide_number h (resolution t)) # cs, e))"

definition resize :: "number option \<Rightarrow> number option \<Rightarrow> Framebuffer \<Rightarrow> result" where
  "resize width' height' fb =
     (let w = Math_ceil (ToNumber width');
          h = Math_ceil (ToNumber height')
      in if strict_equals w (width fb) \<and> strict_equals h (height fb)
         then \<lparr> state = fb, calls = [], returned = Inr Undefined \<rparr>
         else
           (let fb' = fb \<lparr> width := w,
                           height := h,
                           dirtyId := dirtyId fb + 1,
                           dirtySize := dirtySize fb + 1 \<rparr>
            in case resize_loop w h (colorTextures fb) of
                 (cs, Some e) \<Rightarrow> \<lparr> state = fb', calls = cs, returned = Inl e \<rparr>
               | (cs, None) \<Rightarrow>
                   \<lparr> state = fb',
                     calls = cs @
                       (case depthTexture fb of
                          None \<Rightarrow> []
                        | Some t \<Rightarrow>
                            [SetSize t (divide_number w (resolution t))
                               (divide_number h (resolution t))]),
                     returned = Inr Undefined \<rparr>))"

definition dispose :: "Framebuffer \<Rightarrow> result" where
  "dispose fb = \<lparr> state = fb, calls = [Run (disposeRunner fb) fb False], returned = Inr Undefined \<rparr>"

definition destroyDepthTexture :: "Framebuffer \<Rightarrow> result" where
  "destroyDepthTexture fb =
     (case depthTexture fb of
        None \<Rightarrow> \<lparr> state = fb, calls = [], returned = Inr Undefined \<rparr>
      | Some t \<Rightarrow>
          \<lparr> state = fb \<lparr> depthTexture := None,
                          dirtyId := dirtyId fb + 1,
                          dirtyFormat := dirtyFormat fb + 1 \<rparr>,
            calls = [Destroy t],
            returned = Inr Undefined \<rparr>)"

section \<open>Sequences of calls\<close>

text \<open>
  A client calls the methods one after the other on the same instance. \<open>perform\<close> is
  one call; \<open>run\<close> is a sequence of calls and gives the framebuffer they leave. A
  client that catches the \<open>TypeError\<close> of a \<open>resize\<close> goes on with the fields as that
  call left them, so \<open>run\<close> goes on from the state of a call that threw.
\<close>

datatype operation =
    AddColorTexture "nat option" "BaseTexture option"
  | AddDepthTexture "BaseTexture option"
  | EnableDepth
  | EnableStencil
  | Resize "number option" "number option"
  | Dispose
  | DestroyDepthTexture

fun perform :: "operation \<Rightarrow> Framebuffer \<Rightarrow> result" where
  "perform (AddColorTexture index texture) fb = addColorTexture index texture fb"
| "perform (AddDepthTexture texture) fb = addDepthTexture texture fb"
| "perform EnableDepth fb = enableDepth fb"
| "perform EnableStencil fb = enableStencil fb"
| "perform (Resize w h) fb = resize w h fb"
| "perform Dispose fb = dispose fb"
| "perform DestroyDepthTexture fb = destroyDepthTexture fb"

fun run :: "operation list \<Rightarrow> Framebuffer \<Rightarrow> Framebuffer" where
  "run [] fb = fb"
| "run (a # as) fb = run as (state (perform a fb))"

section \<open>Predicates on dimensions and arguments\<close>

text \<open>
  What the statements about stored dimensions speak of: a number that is an integer, a
  number that is a positive integer, an argument that is a finite number, and an
  argument that is a finite number greater than 0. \<open>resize_args P\<close> holds of a call
  when it is not a \<open>resize\<close>, or both its arguments satisfy \<open>P\<close>.
\<close>

definition integral :: "number \<Rightarrow> bool" where
  "integral n = (case n of Finite q \<Rightarrow> of_int \<lfloor>q\<rfloor> = q | NaN \<Rightarrow> False
                 | PosInfinity \<Rightarrow> False | NegInfinity \<Rightarrow> False)"

definition positive_integer :: "number \<Rightarrow> bool" where
  "positive_integer n = (case n of Finite q \<Rightarrow> 0 < q \<and> of_int \<lfloor>q\<rfloor> = q | NaN \<Rightarrow> False
                         | PosInfinity \<Rightarrow> False | NegInfinity \<Rightarrow> False)"

fun finite_arg :: "number option \<Rightarrow> bool" where
  "finite_arg (Some (Finite q)) = True"
| "finite_arg v = False"

fun positive_arg :: "number option \<Rightarrow> bool" where
  "positive_arg (Some (Finite q)) = (0 < q)"
| "positive_arg v = False"

fun resize_args :: "(number option \<Rightarrow> bool) \<Rightarrow> operation \<Rightarrow> bool" where
  "resize_args P (Resize w h) = (P w \<and> P h)"
| "resize_args P a = True"

section \<open>Construction\<close>

text \<open>
  C6. The constructor has no statement that can throw, and for every pair of arguments,
  omitted ones included, it yields: width and height the ceiling of the argument, or of
  100 when the argument is falsy (omitted, 0 or \<open>NaN\<close>); \<open>stencil\<close> and \<open>depth\<close> false;
  the three counters 0; no colour texture, no depth texture, and an empty
  \<open>glFramebuffers\<close>.
\<close>

theorem constructor_initial_state:
  "width (constructor w h) =
     Math_ceil (if w = None \<or> w = Some (Finite 0) \<or> w = Some NaN then Finite 100 else the w)
   \<and> height (constructor w h) =
     Math_ceil (if h = None \<or> h = Some (Finite 0) \<or> h = Some NaN then Finite 100 else the h)
   \<and> stencil (constructor w h) = False
   \<and> depth (constructor w h) = False
   \<and> dirtyId (constructor w h) = 0
   \<and> dirtyFormat (constructor w h) = 0
   \<and> dirtySize (constructor w h) = 0
   \<and> colorTextures (constructor w h) = []
   \<and> depthTexture (constructor w h) = None
   \<and> glFramebuffers (constructor w h) = []"
proof -
  have or_100: "logical_or v (Finite 100) =
      (if v = None \<or> v = Some (Finite 0) \<or> v = Some NaN then Finite 100 else the v)" for v
  proof (cases v)
    case None
    then show ?thesis by (simp add: logical_or_def)
  next
    case (Some n)
    then show ?thesis by (cases n) (simp_all add: logical_or_def)
  qed
  show ?thesis
    by (simp add: constructor_def or_100)
qed

theorem constructor_initial_state_witness:
  "width (constructor (Some (Finite 0)) None) = Finite 100
   \<and> height (constructor (Some (Finite 0)) None) = Finite 100
   \<and> width (constructor (Some (Finite 50.2)) (Some NaN)) = Finite 51
   \<and> height (constructor (Some (Finite 50.2)) (Some NaN)) = Finite 100
   \<and> dirtyId (constructor (Some (Finite 0)) None) = 0
   \<and> colorTextures (constructor (Some (Finite 0)) None) = []"
  using constructor_initial_state [of "Some (Finite 0)" None]
    constructor_initial_state [of "Some (Finite 50.2)" "Some NaN"]
  by simp

section \<open>Facts about the operators and the array\<close>

lemma strict_equals_iff: "strict_equals a b \<longleftrightarrow> a = b \<and> a \<noteq> NaN"
  by (cases a; cases b) simp_all

lemma array_set_length: "i < length (array_set xs i v)"
  by (simp add: array_set_def)

lemma array_set_nth: "array_set xs i v ! i = Some v"
  by (simp add: array_set_def nth_append)

lemma resize_state:
  "state (resize w h fb) =
     (if strict_equals (Math_ceil (ToNumber w)) (width fb)
         \<and> strict_equals (Math_ceil (ToNumber h)) (height fb)
      then fb
      else fb \<lparr> width := Math_ceil (ToNumber w),
                height := Math_ceil (ToNumber h),
                dirtyId := dirtyId fb + 1,
                dirtySize := dirtySize fb + 1 \<rparr>)"
  by (simp add: resize_def Let_def split: prod.splits option.splits)

lemma resize_loop_error:
  "snd (resize_loop w h ts) = (if None \<in> set ts then Some TypeError else None)"
proof (induction ts)
  case Nil
  show ?case by simp
next
  case (Cons x ts)
  then show ?case
    by (cases x) (auto split: prod.splits)
qed

lemma resize_loop_calls:
  "fst (resize_loop w h ts) =
     map (\<lambda>t. SetSize t (divide_number w (resolution t)) (divide_number h (resolution t)))
       (map the (takeWhile (\<lambda>x. x \<noteq> None) ts))"
proof (induction ts)
  case Nil
  show ?case by simp
next
  case (Cons x ts)
  then show ?case
    by (cases x) (auto split: prod.splits)
qed

lemma run_append: "run (xs @ ys) fb = run ys (run xs fb)"
  by (induction xs arbitrary: fb) simp_all

lemma perform_counters:
  "dirtyId fb \<le> dirtyId (state (perform a fb))
   \<and> dirtyFormat fb \<le> dirtyFormat (state (perform a fb))
   \<and> dirtySize fb \<le> dirtySize (state (perform a fb))"
  by (cases a)
    (simp_all add: addColorTexture_def addDepthTexture_def enableDepth_def enableStencil_def
      resize_state dispose_def destroyDepthTexture_def Let_def split: option.splits)

lemma perform_counters_imply:
  "dirtyFormat fb < dirtyFormat (state (perform a fb))
     \<or> dirtySize fb < dirtySize (state (perform a fb))
   \<Longrightarrow> dirtyId fb < dirtyId (state (perform a fb))"
  by (cases a)
    (simp_all add: addColorTexture_def addDepthTexture_def enableDepth_def enableStencil_def
      resize_state dispose_def destroyDepthTexture_def Let_def split: option.splits if_splits)

lemma run_counters:
  "dirtyId fb \<le> dirtyId (run ops fb)
   \<and> dirtyFormat fb \<le> dirtyFormat (run ops fb)
   \<and> dirtySize fb \<le> dirtySize (run ops fb)"
proof (induction ops arbitrary: fb)
  case Nil
  show ?case by simp
next
  case (Cons a ops)
  have step: "dirtyId fb \<le> dirtyId (state (perform a fb))
      \<and> dirtyFormat fb \<le> dirtyFormat (state (perform a fb))
      \<and> dirtySize fb \<le> dirtySize (state (perform a fb))"
    by (rule perform_counters)
  have rest: "dirtyId (state (perform a fb)) \<le> dirtyId (run ops (state (perform a fb)))
      \<and> dirtyFormat (state (perform a fb)) \<le> dirtyFormat (run ops (state (perform a fb)))
      \<and> dirtySize (state (perform a fb)) \<le> dirtySize (run ops (state (perform a fb)))"
    by (rule Cons.IH)
  from step rest show ?case
    by (auto intro: le_trans)
qed

lemma perform_keeps_size:
  "(\<forall>w h. a \<noteq> Resize w h) \<Longrightarrow>
     width (state (perform a fb)) = width fb \<and> height (state (perform a fb)) = height fb"
  by (cases a)
    (simp_all add: addColorTexture_def addDepthTexture_def enableDepth_def enableStencil_def
      dispose_def destroyDepthTexture_def Let_def split: option.splits)

lemma run_dimensions_invariant:
  assumes ceil: "\<And>v. A v \<Longrightarrow> P (Math_ceil (ToNumber v))"
    and "P (width fb)" and "P (height fb)"
    and "list_all (resize_args A) ops"
  shows "P (width (run ops fb)) \<and> P (height (run ops fb))"
  using assms(2-)
proof (induction ops arbitrary: fb)
  case Nil
  then show ?case by simp
next
  case (Cons a ops)
  have "P (width (state (perform a fb))) \<and> P (height (state (perform a fb)))"
  proof (cases "\<exists>w h. a = Resize w h")
    case True
    then obtain w h where a: "a = Resize w h" by blast
    with Cons.prems have "A w" and "A h" by simp_all
    then have "P (Math_ceil (ToNumber w))" and "P (Math_ceil (ToNumber h))"
      by (simp_all add: ceil)
    with Cons.prems a show ?thesis
      by (simp add: resize_state)
  next
    case False
    then have "\<forall>w h. a \<noteq> Resize w h" by blast
    with Cons.prems show ?thesis
      by (simp add: perform_keeps_size)
  qed
  moreover from Cons.prems have "list_all (resize_args A) ops" by simp
  ultimately show ?case
    using Cons.IH by simp
qed

lemma integral_ceil: "finite_arg v \<Longrightarrow> integral (Math_ceil (ToNumber v))"
  by (cases v rule: finite_arg.cases) (simp_all add: integral_def)

lemma positive_ceil: "positive_arg v \<Longrightarrow> positive_integer (Math_ceil (ToNumber v))"
  by (cases v rule: positive_arg.cases) (simp_all add: positive_integer_def)

lemma constructor_integral:
  "finite_arg v \<or> \<not> truthy v \<Longrightarrow> integral (Math_ceil (logical_or v (Finite 100)))"
  by (cases v rule: finite_arg.cases) (simp_all add: logical_or_def integral_def)

lemma constructor_positive:
  "positive_arg v \<or> \<not> truthy v \<Longrightarrow> positive_integer (Math_ceil (logical_or v (Finite 100)))"
  by (cases v rule: positive_arg.cases) (auto simp add: logical_or_def positive_integer_def)

section \<open>Attaching textures\<close>

text \<open>
  C7. \<open>addColorTexture(index, texture)\<close> stores the texture it is given at
  \<open>colorTextures[index]\<close> (index 0 when the index is omitted); when the texture is
  omitted it stores a new texture with resolution 1 and the framebuffer's current width
  and height. \<open>addDepthTexture(texture)\<close> replaces \<open>depthTexture\<close> in the same way.
  Each call adds exactly 1 to \<open>dirtyId\<close> and to \<open>dirtyFormat\<close>, leaves \<open>dirtySize\<close> as it
  was, and returns \<open>this\<close>.
\<close>

theorem add_texture_effect:
  "(let r = addColorTexture index texture fb;
        i = (case index of None \<Rightarrow> 0 | Some i \<Rightarrow> i)
    in i < length (colorTextures (state r))
       \<and> (case texture of
            Some t \<Rightarrow> colorTextures (state r) ! i = Some t
          | None \<Rightarrow>
              (\<exists>t. colorTextures (state r) ! i = Some t
                 \<and> resolution t = Finite 1
                 \<and> texture_width t = width fb
                 \<and> texture_height t = height fb))
       \<and> dirtyId (state r) = dirtyId fb + 1
       \<and> dirtyFormat (state r) = dirtyFormat fb + 1
       \<and> dirtySize (state r) = dirtySize fb
       \<and> returned r = Inr This)
   \<and> (let r = addDepthTexture texture fb
      in (case texture of
            Some t \<Rightarrow> depthTexture (state r) = Some t
          | None \<Rightarrow>
              (\<exists>t. depthTexture (state r) = Some t
                 \<and> resolution t = Finite 1
                 \<and> texture_width t = width fb
                 \<and> texture_height t = height fb))
         \<and> dirtyId (state r) = dirtyId fb + 1
         \<and> dirtyFormat (state r) = dirtyFormat fb + 1
         \<and> dirtySize (state r) = dirtySize fb
         \<and> returned r = Inr This)"
proof -
  have color: "?thesis" if "texture = Some t" for t
    using that
    by (simp add: addColorTexture_def addDepthTexture_def Let_def array_set_length array_set_nth)
  have fresh: "?thesis" if "texture = None"
    using that
    by (simp add: addColorTexture_def addDepthTexture_def Let_def array_set_length array_set_nth)
  show ?thesis
    using color fresh by (cases texture) blast+
qed

theorem add_texture_effect_witness:
  "(\<exists>t. colorTextures (state (addColorTexture (Some 2) None (constructor None None))) ! 2 = Some t
      \<and> resolution t = Finite 1 \<and> texture_width t = Finite 100 \<and> texture_height t = Finite 100)
   \<and> dirtyId (state (addColorTexture (Some 2) None (constructor None None))) = 1
   \<and> dirtyFormat (state (addColorTexture (Some 2) None (constructor None None))) = 1
   \<and> dirtySize (state (addColorTexture (Some 2) None (constructor None None))) = 0
   \<and> returned (addColorTexture (Some 2) None (constructor None None)) = Inr This
   \<and> (\<exists>t. depthTexture (state (addDepthTexture None (constructor None None))) = Some t
      \<and> resolution t = Finite 1 \<and> texture_width t = Finite 100 \<and> texture_height t = Finite 100)
   \<and> returned (addDepthTexture None (constructor None None)) = Inr This"
  using add_texture_effect [of "Some 2" None "constructor None None"]
  by (simp add: Let_def constructor_def logical_or_def)

section \<open>Enabling depth and stencil\<close>

text \<open>
  C8. \<open>enableDepth()\<close> sets \<open>depth\<close> and \<open>enableStencil()\<close> sets \<open>stencil\<close>; each call adds
  exactly 1 to \<open>dirtyId\<close> and to \<open>dirtyFormat\<close> whatever the flag was before, so two calls
  in a row add 2 to each counter.
\<close>

theorem enable_counts_every_call:
  "depth (state (enableDepth fb)) = True
   \<and> dirtyId (state (enableDepth fb)) = dirtyId fb + 1
   \<and> dirtyFormat (state (enableDepth fb)) = dirtyFormat fb + 1
   \<and> depth (state (enableDepth (state (enableDepth fb)))) = True
   \<and> dirtyId (state (enableDepth (state (enableDepth fb)))) = dirtyId fb + 2
   \<and> dirtyFormat (state (enableDepth (state (enableDepth fb)))) = dirtyFormat fb + 2
   \<and> stencil (state (enableStencil fb)) = True
   \<and> dirtyId (state (enableStencil fb)) = dirtyId fb + 1
   \<and> dirtyFormat (state (enableStencil fb)) = dirtyFormat fb + 1
   \<and> stencil (state (enableStencil (state (enableStencil fb)))) = True
   \<and> dirtyId (state (enableStencil (state (enableStencil fb)))) = dirtyId fb + 2
   \<and> dirtyFormat (state (enableStencil (state (enableStencil fb)))) = dirtyFormat fb + 2"
  by (simp add: enableDepth_def enableStencil_def)

theorem enable_counts_every_call_witness:
  "dirtyId (state (enableDepth (state (enableDepth (constructor None None))))) = 2
   \<and> dirtyFormat (state (enableDepth (state (enableDepth (constructor None None))))) = 2
   \<and> dirtyId (state (enableStencil (state (enableStencil (constructor None None))))) = 2
   \<and> dirtyFormat (state (enableStencil (state (enableStencil (constructor None None))))) = 2"
  using enable_counts_every_call [of "constructor None None"]
  by (simp add: constructor_def)

section \<open>Destroying the depth texture\<close>

text \<open>
  C9. Without a depth texture, \<open>destroyDepthTexture()\<close> changes no field, makes no call
  and returns normally. With a depth texture it calls \<open>destroy\<close> on that texture, sets
  \<open>depthTexture\<close> to \<open>null\<close>, adds exactly 1 to \<open>dirtyId\<close> and to \<open>dirtyFormat\<close> and leaves
  \<open>dirtySize\<close> as it was.
\<close>

theorem destroyDepthTexture_effect:
  "(depthTexture fb = None \<longrightarrow>
      destroyDepthTexture fb = \<lparr> state = fb, calls = [], returned = Inr Undefined \<rparr>)
   \<and> (\<forall>t. depthTexture fb = Some t \<longrightarrow>
         calls (destroyDepthTexture fb) = [Destroy t]
         \<and> depthTexture (state (destroyDepthTexture fb)) = None
         \<and> dirtyId (state (destroyDepthTexture fb)) = dirtyId fb + 1
         \<and> dirtyFormat (state (destroyDepthTexture fb)) = dirtyFormat fb + 1
         \<and> dirtySize (state (destroyDepthTexture fb)) = dirtySize fb
         \<and> returned (destroyDepthTexture fb) = Inr Undefined)"
  by (simp add: destroyDepthTexture_def)

theorem destroyDepthTexture_effect_witness:
  "destroyDepthTexture (constructor None None) =
     \<lparr> state = constructor None None, calls = [], returned = Inr Undefined \<rparr>
   \<and> (\<exists>t. depthTexture (state (addDepthTexture None (constructor None None))) = Some t
        \<and> calls (destroyDepthTexture (state (addDepthTexture None (constructor None None))))
            = [Destroy t])
   \<and> depthTexture (state (destroyDepthTexture (state (addDepthTexture None (constructor None None)))))
       = None
   \<and> dirtyId (state (destroyDepthTexture (state (addDepthTexture None (constructor None None)))))
       = 2
   \<and> dirtyFormat (state (destroyDepthTexture (state (addDepthTexture None (constructor None None)))))
       = 2
   \<and> dirtySize (state (destroyDepthTexture (state (addDepthTexture None (constructor None None)))))
       = 0"
  using destroyDepthTexture_effect [of "constructor None None"]
    destroyDepthTexture_effect [of "state (addDepthTexture None (constructor None None))"]
  by (simp add: constructor_def addDepthTexture_def)

section \<open>Resizing\<close>

text \<open>
  C3. When the ceilings of the arguments are equal to the current width and height,
  \<open>resize\<close> returns at once: no field changes (in particular none of the three counters,
  the width or the height), and \<open>setSize\<close> is called on no texture. Equal is
  JavaScript's \<open>===\<close>, the comparison of the guard (lemma \<open>strict_equals_iff\<close>: the two
  numbers are the same and are not \<open>NaN\<close>).
\<close>

theorem resize_same_size_noop:
  assumes "strict_equals (Math_ceil (ToNumber w)) (width fb)"
    and "strict_equals (Math_ceil (ToNumber h)) (height fb)"
  shows "resize w h fb = \<lparr> state = fb, calls = [], returned = Inr Undefined \<rparr>"
  using assms by (simp add: resize_def)

theorem resize_same_size_noop_witness:
  "strict_equals (Math_ceil (ToNumber (Some (Finite 99.5))))
     (width (state (addColorTexture None None (constructor None None))))
   \<and> strict_equals (Math_ceil (ToNumber (Some (Finite 100))))
     (height (state (addColorTexture None None (constructor None None))))
   \<and> resize (Some (Finite 99.5)) (Some (Finite 100))
       (state (addColorTexture None None (constructor None None)))
     = \<lparr> state = state (addColorTexture None None (constructor None None)),
         calls = [],
         returned = Inr Undefined \<rparr>"
proof -
  have w: "strict_equals (Math_ceil (ToNumber (Some (Finite 99.5))))
     (width (state (addColorTexture None None (constructor None None))))"
    by (simp add: addColorTexture_def constructor_def logical_or_def)
  have h: "strict_equals (Math_ceil (ToNumber (Some (Finite 100))))
     (height (state (addColorTexture None None (constructor None None))))"
    by (simp add: addColorTexture_def constructor_def logical_or_def)
  show ?thesis
    using w h resize_same_size_noop [OF w h] by simp
qed

text \<open>
  C10. \<open>resize\<close> has no default for falsy arguments: on a framebuffer whose width or
  height is not 0, \<open>resize(0, 0)\<close> stores width 0 and height 0 and adds 1 to \<open>dirtyId\<close>
  and to \<open>dirtySize\<close>, as any change of size does, whereas the constructor called with
  \<open>(0, 0)\<close> stores 100 and 100.
\<close>

theorem resize_zero_is_stored:
  assumes "width fb \<noteq> Finite 0 \<or> height fb \<noteq> Finite 0"
  shows "width (state (resize (Some (Finite 0)) (Some (Finite 0)) fb)) = Finite 0
    \<and> height (state (resize (Some (Finite 0)) (Some (Finite 0)) fb)) = Finite 0
    \<and> dirtyId (state (resize (Some (Finite 0)) (Some (Finite 0)) fb)) = dirtyId fb + 1
    \<and> dirtySize (state (resize (Some (Finite 0)) (Some (Finite 0)) fb)) = dirtySize fb + 1
    \<and> dirtyFormat (state (resize (Some (Finite 0)) (Some (Finite 0)) fb)) = dirtyFormat fb
    \<and> width (constructor (Some (Finite 0)) (Some (Finite 0))) = Finite 100
    \<and> height (constructor (Some (Finite 0)) (Some (Finite 0))) = Finite 100"
proof -
  have "\<not> (strict_equals (Math_ceil (ToNumber (Some (Finite 0)))) (width fb)
          \<and> strict_equals (Math_ceil (ToNumber (Some (Finite 0)))) (height fb))"
    using assms by (auto simp add: strict_equals_iff)
  then show ?thesis
    by (simp add: resize_state constructor_def logical_or_def)
qed

theorem resize_zero_is_stored_witness:
  "width (constructor None None) = Finite 100
   \<and> height (constructor None None) = Finite 100
   \<and> width (state (resize (Some (Finite 0)) (Some (Finite 0)) (constructor None None))) = Finite 0
   \<and> height (state (resize (Some (Finite 0)) (Some (Finite 0)) (constructor None None))) = Finite 0
   \<and> dirtyId (state (resize (Some (Finite 0)) (Some (Finite 0)) (constructor None None))) = 1
   \<and> dirtySize (state (resize (Some (Finite 0)) (Some (Finite 0)) (constructor None None))) = 1"
proof -
  have d: "width (constructor None None) \<noteq> Finite 0 \<or> height (constructor None None) \<noteq> Finite 0"
    by (simp add: constructor_def logical_or_def)
  show ?thesis
    using resize_zero_is_stored [OF d] by (simp add: constructor_def logical_or_def)
qed

text \<open>
  What \<open>resize\<close> does when the size changes and \<open>colorTextures\<close> has no hole: it stores
  the ceilings, adds 1 to \<open>dirtyId\<close> and to \<open>dirtySize\<close>, changes no other field, calls
  \<open>setSize(width / resolution, height / resolution)\<close> on each colour texture in index
  order and then on the depth texture when there is one, and returns normally.
\<close>

lemma resize_without_holes:
  assumes "\<not> (strict_equals (Math_ceil (ToNumber w)) (width fb)
              \<and> strict_equals (Math_ceil (ToNumber h)) (height fb))"
    and "None \<notin> set (colorTextures fb)"
  shows "resize w h fb =
     \<lparr> state = fb \<lparr> width := Math_ceil (ToNumber w),
                     height := Math_ceil (ToNumber h),
                     dirtyId := dirtyId fb + 1,
                     dirtySize := dirtySize fb + 1 \<rparr>,
       calls =
         map (\<lambda>t. SetSize t (divide_number (Math_ceil (ToNumber w)) (resolution t))
                    (divide_number (Math_ceil (ToNumber h)) (resolution t)))
           (map the (colorTextures fb) @
             (case depthTexture fb of None \<Rightarrow> [] | Some t \<Rightarrow> [t])),
       returned = Inr Undefined \<rparr>"
proof -
  let ?w = "Math_ceil (ToNumber w)" and ?h = "Math_ceil (ToNumber h)"
  have "\<forall>x \<in> set (colorTextures fb). x \<noteq> None"
    using assms(2) by metis
  then have all: "takeWhile (\<lambda>x. x \<noteq> None) (colorTextures fb) = colorTextures fb"
    by (simp only: takeWhile_eq_all_conv)
  have "snd (resize_loop ?w ?h (colorTextures fb)) = None"
    using assms(2) by (simp add: resize_loop_error)
  moreover have "fst (resize_loop ?w ?h (colorTextures fb)) =
      map (\<lambda>t. SetSize t (divide_number ?w (resolution t)) (divide_number ?h (resolution t)))
        (map the (colorTextures fb))"
    by (simp only: resize_loop_calls all)
  ultimately have loop: "resize_loop ?w ?h (colorTextures fb) =
      (map (\<lambda>t. SetSize t (divide_number ?w (resolution t)) (divide_number ?h (resolution t)))
         (map the (colorTextures fb)), None)"
    by (simp add: prod_eq_iff)
  have changes: "(strict_equals ?w (width fb) \<and> strict_equals ?h (height fb)) = False"
    using assms(1) by blast
  show ?thesis
    by (simp add: resize_def Let_def loop changes split: option.splits)
qed

text \<open>
  The scenario of the specification: \<open>new Framebuffer(0, 0)\<close> is 100 by 100; after
  \<open>addColorTexture()\<close> the call \<open>resize(50.2, 60.1)\<close> stores 51 and 61, leaves
  \<open>dirtyId = 2\<close>, \<open>dirtyFormat = 1\<close>, \<open>dirtySize = 1\<close>, and calls \<open>setSize(51, 61)\<close> on the
  texture of resolution 1. A texture of resolution 2 is asked for half of that.
\<close>

lemma resize_without_holes_scenario:
  "resize (Some (Finite 50.2)) (Some (Finite 60.1))
     (state (addColorTexture None None (constructor (Some (Finite 0)) (Some (Finite 0)))))
   = \<lparr> state =
         \<lparr> width = Finite 51, height = Finite 61, stencil = False, depth = False,
           dirtyId = 2, dirtyFormat = 1, dirtySize = 1,
           depthTexture = None,
           colorTextures =
             [Some \<lparr> resource = None, scaleMode = NEAREST, resolution = Finite 1,
                      mipmap = False, texture_width = Finite 100, texture_height = Finite 100,
                      format = None, type = None \<rparr>],
           glFramebuffers = [],
           disposeRunner = Runner ''disposeFramebuffer'' 2 \<rparr>,
       calls =
         [SetSize \<lparr> resource = None, scaleMode = NEAREST, resolution = Finite 1,
                    mipmap = False, texture_width = Finite 100, texture_height = Finite 100,
                    format = None, type = None \<rparr>
            (Finite 51) (Finite 61)],
       returned = Inr Undefined \<rparr>
   \<and> calls (resize (Some (Finite 50.2)) (Some (Finite 60.1))
        (state (addDepthTexture
           (Some \<lparr> resource = None, scaleMode = LINEAR, resolution = Finite 2,
                    mipmap = False, texture_width = Finite 50, texture_height = Finite 50,
                    format = None, type = None \<rparr>)
           (constructor None None))))
     = [SetSize \<lparr> resource = None, scaleMode = LINEAR, resolution = Finite 2,
                   mipmap = False, texture_width = Finite 50, texture_height = Finite 50,
                   format = None, type = None \<rparr>
          (Finite 25.5) (Finite 30.5)]"
proof -
  let ?color = "state (addColorTexture None None (constructor (Some (Finite 0)) (Some (Finite 0))))"
  let ?depth = "state (addDepthTexture
           (Some \<lparr> resource = None, scaleMode = LINEAR, resolution = Finite 2,
                    mipmap = False, texture_width = Finite 50, texture_height = Finite 50,
                    format = None, type = None \<rparr>)
           (constructor None None))"
  have changes: "\<not> (strict_equals (Math_ceil (ToNumber (Some (Finite 50.2)))) (width fb)
              \<and> strict_equals (Math_ceil (ToNumber (Some (Finite 60.1)))) (height fb))"
    if "width fb = Finite 100" for fb :: Framebuffer
    using that by simp
  have color: "width ?color = Finite 100" and color_full: "None \<notin> set (colorTextures ?color)"
    by (simp_all add: addColorTexture_def constructor_def logical_or_def array_set_def Let_def)
  have depth: "width ?depth = Finite 100" and depth_full: "None \<notin> set (colorTextures ?depth)"
    by (simp_all add: addDepthTexture_def constructor_def logical_or_def Let_def)
  show ?thesis
    using resize_without_holes [OF changes [OF color] color_full]
      resize_without_holes [OF changes [OF depth] depth_full]
    by (simp add: addColorTexture_def addDepthTexture_def constructor_def logical_or_def
        array_set_def Let_def)
qed

text \<open>
  C2, at a framebuffer with a hole. \<open>new Framebuffer(100, 100)\<close>, then
  \<open>addColorTexture(1)\<close> (index 0 is never filled), then \<open>addDepthTexture()\<close>, then
  \<open>resize(50.2, 60.1)\<close>: the ceilings 51 and 61 are stored and \<open>dirtyId\<close> and \<open>dirtySize\<close>
  go up by 1, but the loop reads \<open>resolution\<close> of the hole at index 0 and throws, so
  \<open>setSize\<close> is called neither on the colour texture at index 1 nor on the depth texture.
\<close>

theorem resize_hole_leaves_attached_unsized:
  "colorTextures (state (addDepthTexture None
       (state (addColorTexture (Some 1) None (constructor (Some (Finite 100)) (Some (Finite 100)))))))
     = [None,
        Some \<lparr> resource = None, scaleMode = NEAREST, resolution = Finite 1, mipmap = False,
               texture_width = Finite 100, texture_height = Finite 100,
               format = None, type = None \<rparr>]
   \<and> depthTexture (state (addDepthTexture None
       (state (addColorTexture (Some 1) None (constructor (Some (Finite 100)) (Some (Finite 100)))))))
     \<noteq> None
   \<and> width (state (resize (Some (Finite 50.2)) (Some (Finite 60.1)) (state (addDepthTexture None
       (state (addColorTexture (Some 1) None (constructor (Some (Finite 100)) (Some (Finite 100)))))))))
     = Finite 51
   \<and> height (state (resize (Some (Finite 50.2)) (Some (Finite 60.1)) (state (addDepthTexture None
       (state (addColorTexture (Some 1) None (constructor (Some (Finite 100)) (Some (Finite 100)))))))))
     = Finite 61
   \<and> dirtyId (state (resize (Some (Finite 50.2)) (Some (Finite 60.1)) (state (addDepthTexture None
       (state (addColorTexture (Some 1) None (constructor (Some (Finite 100)) (Some (Finite 100)))))))))
     = 3
   \<and> dirtySize (state (resize (Some (Finite 50.2)) (Some (Finite 60.1)) (state (addDepthTexture None
       (state (addColorTexture (Some 1) None (constructor (Some (Finite 100)) (Some (Finite 100)))))))))
     = 1
   \<and> calls (resize (Some (Finite 50.2)) (Some (Finite 60.1)) (state (addDepthTexture None
       (state (addColorTexture (Some 1) None (constructor (Some (Finite 100)) (Some (Finite 100))))))))
     = []
   \<and> returned (resize (Some (Finite 50.2)) (Some (Finite 60.1)) (state (addDepthTexture None
       (state (addColorTexture (Some 1) None (constructor (Some (Finite 100)) (Some (Finite 100))))))))
     = Inl TypeError"
  by (simp add: resize_def addDepthTexture_def addColorTexture_def constructor_def
      logical_or_def array_set_def Let_def)

text \<open>
  C4, as the code behaves. On a framebuffer whose \<open>colorTextures\<close> has a hole, a
  \<open>resize\<close> that changes the size does not skip the hole: it throws a \<open>TypeError\<close>, and
  the only \<open>setSize\<close> calls it has made are those on the textures before the first hole.
\<close>

theorem resize_throws_at_hole:
  assumes "None \<in> set (colorTextures fb)"
    and "\<not> (strict_equals (Math_ceil (ToNumber w)) (width fb)
              \<and> strict_equals (Math_ceil (ToNumber h)) (height fb))"
  shows "returned (resize w h fb) = Inl TypeError
    \<and> calls (resize w h fb) =
        map (\<lambda>t. SetSize t (divide_number (Math_ceil (ToNumber w)) (resolution t))
                   (divide_number (Math_ceil (ToNumber h)) (resolution t)))
          (map the (takeWhile (\<lambda>x. x \<noteq> None) (colorTextures fb)))"
proof -
  let ?w = "Math_ceil (ToNumber w)" and ?h = "Math_ceil (ToNumber h)"
  have "snd (resize_loop ?w ?h (colorTextures fb)) = Some TypeError"
    using assms(1) by (simp add: resize_loop_error)
  moreover have "fst (resize_loop ?w ?h (colorTextures fb)) =
      map (\<lambda>t. SetSize t (divide_number ?w (resolution t)) (divide_number ?h (resolution t)))
        (map the (takeWhile (\<lambda>x. x \<noteq> None) (colorTextures fb)))"
    by (rule resize_loop_calls)
  ultimately have loop: "resize_loop ?w ?h (colorTextures fb) =
      (map (\<lambda>t. SetSize t (divide_number ?w (resolution t)) (divide_number ?h (resolution t)))
         (map the (takeWhile (\<lambda>x. x \<noteq> None) (colorTextures fb))), Some TypeError)"
    by (simp add: prod_eq_iff)
  have changes: "(strict_equals ?w (width fb) \<and> strict_equals ?h (height fb)) = False"
    using assms(2) by blast
  show ?thesis
    by (simp add: resize_def Let_def loop changes)
qed

theorem resize_throws_at_hole_witness:
  "colorTextures (state (addColorTexture (Some 2) None (constructor None None)))
     = [None, None,
        Some \<lparr> resource = None, scaleMode = NEAREST, resolution = Finite 1, mipmap = False,
               texture_width = Finite 100, texture_height = Finite 100,
               format = None, type = None \<rparr>]
   \<and> returned (resize (Some (Finite 50)) (Some (Finite 60))
       (state (addColorTexture (Some 2) None (constructor None None)))) = Inl TypeError
   \<and> calls (resize (Some (Finite 50)) (Some (Finite 60))
       (state (addColorTexture (Some 2) None (constructor None None)))) = []"
proof -
  have cs: "colorTextures (state (addColorTexture (Some 2) None (constructor None None)))
     = [None, None,
        Some \<lparr> resource = None, scaleMode = NEAREST, resolution = Finite 1, mipmap = False,
               texture_width = Finite 100, texture_height = Finite 100,
               format = None, type = None \<rparr>]"
    by (simp add: addColorTexture_def constructor_def logical_or_def array_set_def Let_def
        eval_nat_numeral)
  have hole: "None \<in> set (colorTextures (state (addColorTexture (Some 2) None (constructor None None))))"
    by (simp add: cs)
  have changes: "\<not> (strict_equals (Math_ceil (ToNumber (Some (Finite 50))))
                     (width (state (addColorTexture (Some 2) None (constructor None None))))
       \<and> strict_equals (Math_ceil (ToNumber (Some (Finite 60))))
           (height (state (addColorTexture (Some 2) None (constructor None None)))))"
    by (simp add: addColorTexture_def constructor_def logical_or_def Let_def)
  show ?thesis
    using resize_throws_at_hole [OF hole changes] by (simp add: cs)
qed

section \<open>The version counters over a sequence of calls\<close>

text \<open>
  C1. Over any sequence of calls on any framebuffer, \<open>dirtyId\<close>, \<open>dirtyFormat\<close> and
  \<open>dirtySize\<close> never decrease: their values after a prefix of the sequence are at most
  their values after the whole sequence. And a call that increases \<open>dirtyFormat\<close> or
  \<open>dirtySize\<close> increases \<open>dirtyId\<close> too.
\<close>

theorem counters_monotonic:
  "dirtyId (run ops1 fb) \<le> dirtyId (run (ops1 @ ops2) fb)
   \<and> dirtyFormat (run ops1 fb) \<le> dirtyFormat (run (ops1 @ ops2) fb)
   \<and> dirtySize (run ops1 fb) \<le> dirtySize (run (ops1 @ ops2) fb)
   \<and> (dirtyFormat (run ops1 fb) < dirtyFormat (state (perform a (run ops1 fb)))
        \<or> dirtySize (run ops1 fb) < dirtySize (state (perform a (run ops1 fb)))
      \<longrightarrow> dirtyId (run ops1 fb) < dirtyId (state (perform a (run ops1 fb))))"
  using run_counters [of "run ops1 fb" ops2] perform_counters_imply [of "run ops1 fb" a]
  by (simp add: run_append)

theorem counters_monotonic_witness:
  "dirtySize (run [AddColorTexture None None, EnableDepth] (constructor None None))
     < dirtySize (state (perform (Resize (Some (Finite 50.2)) (Some (Finite 60.1)))
         (run [AddColorTexture None None, EnableDepth] (constructor None None))))
   \<and> dirtyId (run [AddColorTexture None None, EnableDepth] (constructor None None))
     < dirtyId (state (perform (Resize (Some (Finite 50.2)) (Some (Finite 60.1)))
         (run [AddColorTexture None None, EnableDepth] (constructor None None))))
   \<and> dirtyFormat (run [AddColorTexture None None, EnableDepth] (constructor None None))
     \<le> dirtyFormat (run ([AddColorTexture None None, EnableDepth] @ [DestroyDepthTexture, EnableStencil])
         (constructor None None))"
proof -
  have grows: "dirtySize (run [AddColorTexture None None, EnableDepth] (constructor None None))
     < dirtySize (state (perform (Resize (Some (Finite 50.2)) (Some (Finite 60.1)))
         (run [AddColorTexture None None, EnableDepth] (constructor None None))))"
    by (simp add: resize_state addColorTexture_def enableDepth_def constructor_def
        logical_or_def Let_def)
  show ?thesis
    using grows
      counters_monotonic [of "[AddColorTexture None None, EnableDepth]" "constructor None None"
        "[DestroyDepthTexture, EnableStencil]" "Resize (Some (Finite 50.2)) (Some (Finite 60.1))"]
    by blast
qed

section \<open>The stored dimensions over a sequence of calls\<close>

text \<open>
  C5 fails as stated: \<open>new Framebuffer(-5, -5)\<close> stores width -5 and height -5, and on a
  framebuffer of 100 by 100 \<open>resize(-2.5, 0)\<close> stores width -2 and height 0.
\<close>

theorem nonpositive_dimensions_are_stored:
  "width (constructor (Some (Finite (- 5))) (Some (Finite (- 5)))) = Finite (- 5)
   \<and> height (constructor (Some (Finite (- 5))) (Some (Finite (- 5)))) = Finite (- 5)
   \<and> \<not> positive_integer (width (constructor (Some (Finite (- 5))) (Some (Finite (- 5)))))
   \<and> width (run [Resize (Some (Finite (- 2.5))) (Some (Finite 0))] (constructor None None))
       = Finite (- 2)
   \<and> height (run [Resize (Some (Finite (- 2.5))) (Some (Finite 0))] (constructor None None))
       = Finite 0
   \<and> \<not> positive_integer
         (width (run [Resize (Some (Finite (- 2.5))) (Some (Finite 0))] (constructor None None)))
   \<and> \<not> positive_integer
         (height (run [Resize (Some (Finite (- 2.5))) (Some (Finite 0))] (constructor None None)))"
proof -
  have c: "\<lceil>- 2.5 :: real\<rceil> = - 2"
    by code_simp
  show ?thesis
    by (simp add: constructor_def logical_or_def positive_integer_def resize_state c)
qed

text \<open>
  C5, amended. Take a framebuffer constructed with arguments that are each a finite
  number or falsy (omitted, 0 or \<open>NaN\<close>), and any sequence of calls on it whose \<open>resize\<close>
  arguments are finite numbers. Then the stored width and height are always integers.
  If moreover no constructor argument is a number below 0 and every \<open>resize\<close> argument
  is greater than 0, the stored width and height are always positive integers.
\<close>

theorem dimensions_integers_positive_for_positive_arguments:
  assumes "finite_arg w \<or> \<not> truthy w"
    and "finite_arg h \<or> \<not> truthy h"
    and "list_all (resize_args finite_arg) ops"
  shows "integral (width (run ops (constructor w h)))
    \<and> integral (height (run ops (constructor w h)))
    \<and> ((positive_arg w \<or> \<not> truthy w) \<and> (positive_arg h \<or> \<not> truthy h)
         \<and> list_all (resize_args positive_arg) ops
       \<longrightarrow> positive_integer (width (run ops (constructor w h)))
           \<and> positive_integer (height (run ops (constructor w h))))"
proof -
  have "integral (width (constructor w h))" and "integral (height (constructor w h))"
    using assms(1,2) by (simp_all add: constructor_def constructor_integral)
  then have ints: "integral (width (run ops (constructor w h)))
      \<and> integral (height (run ops (constructor w h)))"
    using assms(3) integral_ceil
    by (rule_tac run_dimensions_invariant [where A = finite_arg]) simp_all
  have pos: "positive_integer (width (run ops (constructor w h)))
      \<and> positive_integer (height (run ops (constructor w h)))"
    if "positive_arg w \<or> \<not> truthy w" and "positive_arg h \<or> \<not> truthy h"
      and "list_all (resize_args positive_arg) ops"
  proof -
    have "positive_integer (width (constructor w h))"
      and "positive_integer (height (constructor w h))"
      using that(1,2) by (simp_all add: constructor_def constructor_positive)
    then show ?thesis
      using that(3) positive_ceil
      by (rule_tac run_dimensions_invariant [where A = positive_arg]) simp_all
  qed
  from ints pos show ?thesis by blast
qed

theorem dimensions_integers_positive_for_positive_arguments_witness:
  "width (run [AddColorTexture None None, Resize (Some (Finite 50.2)) (Some (Finite 60.1)), EnableDepth]
       (constructor (Some (Finite 0)) (Some (Finite 7.5)))) = Finite 51
   \<and> height (run [AddColorTexture None None, Resize (Some (Finite 50.2)) (Some (Finite 60.1)), EnableDepth]
       (constructor (Some (Finite 0)) (Some (Finite 7.5)))) = Finite 61
   \<and> positive_integer
       (width (run [AddColorTexture None None, Resize (Some (Finite 50.2)) (Some (Finite 60.1)), EnableDepth]
         (constructor (Some (Finite 0)) (Some (Finite 7.5)))))
   \<and> positive_integer
       (height (run [AddColorTexture None None, Resize (Some (Finite 50.2)) (Some (Finite 60.1)), EnableDepth]
         (constructor (Some (Finite 0)) (Some (Finite 7.5)))))"
proof -
  have a: "finite_arg (Some (Finite 0)) \<or> \<not> truthy (Some (Finite 0))"
    and b: "finite_arg (Some (Finite 7.5)) \<or> \<not> truthy (Some (Finite 7.5))"
    and c: "list_all (resize_args finite_arg)
      [AddColorTexture None None, Resize (Some (Finite 50.2)) (Some (Finite 60.1)), EnableDepth]"
    by simp_all
  have dims: "width (run [AddColorTexture None None, Resize (Some (Finite 50.2)) (Some (Finite 60.1)), EnableDepth]
       (constructor (Some (Finite 0)) (Some (Finite 7.5)))) = Finite 51
   \<and> height (run [AddColorTexture None None, Resize (Some (Finite 50.2)) (Some (Finite 60.1)), EnableDepth]
       (constructor (Some (Finite 0)) (Some (Finite 7.5)))) = Finite 61"
    by (simp add: resize_state addColorTexture_def enableDepth_def constructor_def
        logical_or_def Let_def)
  show ?thesis
    using dims dimensions_integers_positive_for_positive_arguments [OF a b c]
    by simp
qed

end
